theory Spec2Isabelle
  imports Complex_Main
begin

section \<open>float32 arithmetic\<close>

text \<open>
  The renderer computes with Go's \<^verbatim>\<open>float32\<close>. A value is a finite number, an infinity
  or a NaN; a finite value is kept as the rational it denotes (the two zeros, which Go's
  \<^verbatim>\<open>==\<close> does not tell apart, are one value here). Every operation computes the exact
  result and rounds it to the nearest binary32 number, ties to even, as IEEE 754 and
  the Go specification prescribe.
\<close>

datatype float32 = Fin rat | PInf | NInf | NaN

text \<open>\<open>expo x\<close> is the binary exponent of a positive \<open>x\<close>: \<open>2^e \<le> x < 2^(e+1)\<close>.\<close>

function expo_hi :: "rat \<Rightarrow> int" where
  "expo_hi x = (if 2 \<le> x then expo_hi (x / 2) + 1 else 0)"
  by pat_completeness auto
termination
proof (relation "measure (\<lambda>x. nat \<lfloor>x\<rfloor>)")
  show "wf (measure (\<lambda>x::rat. nat \<lfloor>x\<rfloor>))" by simp
next
  fix x :: rat
  assume "2 \<le> x"
  then have "rat_of_int \<lfloor>x / 2\<rfloor> < rat_of_int \<lfloor>x\<rfloor>"
    by linarith
  then have "\<lfloor>x / 2\<rfloor> < \<lfloor>x\<rfloor>" by simp
  moreover from \<open>2 \<le> x\<close> have "0 < \<lfloor>x\<rfloor>" by linarith
  ultimately show "(x / 2, x) \<in> measure (\<lambda>x. nat \<lfloor>x\<rfloor>)"
    by simp
qed

function expo_lo :: "rat \<Rightarrow> int" where
  "expo_lo x = (if 0 < x \<and> x < 1 then expo_lo (x * 2) - 1 else 0)"
  by pat_completeness auto
termination
proof (relation "measure (\<lambda>x. nat \<lfloor>1 / x\<rfloor>)")
  show "wf (measure (\<lambda>x::rat. nat \<lfloor>1 / x\<rfloor>))" by simp
next
  fix x :: rat
  assume a: "0 < x \<and> x < 1"
  define y where "y = 1 / x"
  from a have y: "1 \<le> y" by (simp add: y_def)
  then have "0 < \<lfloor>y\<rfloor>" by linarith
  moreover have "1 / (x * 2) = y / 2" by (simp add: y_def)
  moreover have "\<lfloor>y / 2\<rfloor> < \<lfloor>y\<rfloor>"
  proof (cases "y < 2")
    case True
    then have "rat_of_int \<lfloor>y / 2\<rfloor> < rat_of_int 1" by linarith
    then have "\<lfloor>y / 2\<rfloor> < 1" by (simp only: of_int_less_iff)
    with \<open>0 < \<lfloor>y\<rfloor>\<close> show ?thesis by linarith
  next
    case False
    then have "rat_of_int \<lfloor>y / 2\<rfloor> < rat_of_int \<lfloor>y\<rfloor>" by linarith
    then show ?thesis by simp
  qed
  ultimately show "(x * 2, x) \<in> measure (\<lambda>x. nat \<lfloor>1 / x\<rfloor>)"
    by (simp add: y_def)
qed

definition expo :: "rat \<Rightarrow> int" where
  "expo x = (if 1 \<le> x then expo_hi x else expo_lo x)"

text \<open>Rounding to the nearest integer, a tie going to the even neighbour.\<close>

definition rne :: "rat \<Rightarrow> int" where
  "rne q = (let f = \<lfloor>q\<rfloor>; d = q - of_int f in
     if d < 1 / 2 then f else if 1 / 2 < d then f + 1 else if even f then f else f + 1)"

text \<open>
  binary32 has 24 significant bits and exponents from -126 to 127: a number of binary
  exponent \<open>e\<close> is rounded to a multiple of \<open>2^(e-23)\<close>, numbers below \<open>2^(-126)\<close> to a
  multiple of \<open>2^(-149)\<close>, and a result of magnitude \<open>2^128\<close> or more is an infinity.
\<close>

definition ulp32 :: "rat \<Rightarrow> rat" where
  "ulp32 x = 2 powi (max (expo \<bar>x\<bar>) (- 126) - 23)"

definition round32 :: "rat \<Rightarrow> float32" where
  "round32 x = (if x = 0 then Fin 0 else
     let u = ulp32 x;
         r = of_int (rne (x / u)) * u
     in if 2 powi 128 \<le> \<bar>r\<bar> then (if 0 < x then PInf else NInf) else Fin r)"

text \<open>A finite value is a binary32 number when rounding leaves it as it is.\<close>

fun is_float32 :: "float32 \<Rightarrow> bool" where
  "is_float32 (Fin a) = (round32 a = Fin a)"
| "is_float32 _ = True"

fun fneg :: "float32 \<Rightarrow> float32" where
  "fneg (Fin a) = Fin (- a)"
| "fneg PInf = NInf"
| "fneg NInf = PInf"
| "fneg NaN = NaN"

fun fadd :: "float32 \<Rightarrow> float32 \<Rightarrow> float32" where
  "fadd (Fin a) (Fin b) = round32 (a + b)"
| "fadd NaN _ = NaN"
| "fadd _ NaN = NaN"
| "fadd PInf NInf = NaN"
| "fadd NInf PInf = NaN"
| "fadd PInf _ = PInf"
| "fadd NInf _ = NInf"
| "fadd _ PInf = PInf"
| "fadd _ NInf = NInf"

definition fsub :: "float32 \<Rightarrow> float32 \<Rightarrow> float32" where
  "fsub x y = fadd x (fneg y)"

fun fmul :: "float32 \<Rightarrow> float32 \<Rightarrow> float32" where
  "fmul (Fin a) (Fin b) = round32 (a * b)"
| "fmul NaN _ = NaN"
| "fmul _ NaN = NaN"
| "fmul (Fin a) PInf = (if a = 0 then NaN else if 0 < a then PInf else NInf)"
| "fmul (Fin a) NInf = (if a = 0 then NaN else if 0 < a then NInf else PInf)"
| "fmul PInf (Fin b) = (if b = 0 then NaN else if 0 < b then PInf else NInf)"
| "fmul NInf (Fin b) = (if b = 0 then NaN else if 0 < b then NInf else PInf)"
| "fmul PInf PInf = PInf"
| "fmul NInf NInf = PInf"
| "fmul PInf NInf = NInf"
| "fmul NInf PInf = NInf"

text \<open>An untyped constant used as a \<^verbatim>\<open>float32\<close> is rounded once, at compile time.\<close>

definition const32 :: "rat \<Rightarrow> float32" where
  "const32 q = round32 q"

text \<open>
  \<^verbatim>\<open>math.Sin\<close> and \<^verbatim>\<open>math.Cos\<close> belong to Go's library. The renderer uses them only as
  \<^verbatim>\<open>float32(math.Sin(float64(angle)))\<close>, so the model takes these two compositions as
  parameters.
\<close>

record gomath =
  sin32 :: "float32 \<Rightarrow> float32"
  cos32 :: "float32 \<Rightarrow> float32"

section \<open>The browser as the renderer sees it\<close>

text \<open>
  Every \<^verbatim>\<open>js.Value\<close> the renderer holds comes from the page: the canvas, the WebGL
  context, the context's constants and the handles its calls return.
\<close>

datatype jsval = JNull | JUndefined | JBool bool | JNum rat | JStr string | JObj nat

text \<open>\<^verbatim>\<open>Value.Call\<close> panics unless its receiver is an object.\<close>

fun is_object :: "jsval \<Rightarrow> bool" where
  "is_object (JObj _) = True"
| "is_object _ = False"

record browser =
  getElementById :: "string \<Rightarrow> jsval"
  getContext :: "string \<Rightarrow> jsval"
  gl_get :: "string \<Rightarrow> jsval"
  createBuffer :: jsval
  createShader :: "jsval \<Rightarrow> jsval"
  createProgram :: jsval
  getAttribLocation :: "jsval \<Rightarrow> string \<Rightarrow> jsval"
  getUniformLocation :: "jsval \<Rightarrow> string \<Rightarrow> jsval"

text \<open>The calls the renderer makes into the page, with their arguments, in the order made.\<close>

datatype js_call =
    GetElementById string
  | GetContext string
  | Alert string
  | RequestAnimationFrame string
  | ClearColor rat rat rat rat
  | Clear jsval
  | CreateBuffer
  | BindBuffer jsval jsval
  | BufferData jsval "float32 list" jsval
  | CreateShader jsval
  | ShaderSource jsval string
  | CompileShader jsval
  | CreateProgram
  | AttachShader jsval jsval
  | LinkProgram jsval
  | UseProgram jsval
  | GetAttribLocation jsval string
  | EnableVertexAttribArray jsval
  | VertexAttribPointer jsval int jsval bool int int
  | GetUniformLocation jsval string
  | UniformMatrix4fv jsval bool "float32 list"
  | DrawArrays jsval int int

text \<open>The calls on the WebGL context, as opposed to those on the document, canvas or window.\<close>

fun is_gl_call :: "js_call \<Rightarrow> bool" where
  "is_gl_call (GetElementById _) = False"
| "is_gl_call (GetContext _) = False"
| "is_gl_call (Alert _) = False"
| "is_gl_call (RequestAnimationFrame _) = False"
| "is_gl_call _ = True"

fun is_alert :: "js_call \<Rightarrow> bool" where
  "is_alert (Alert _) = True"
| "is_alert _ = False"

fun is_get_context :: "js_call \<Rightarrow> bool" where
  "is_get_context (GetContext _) = True"
| "is_get_context _ = False"

fun is_uniform_upload :: "js_call \<Rightarrow> bool" where
  "is_uniform_upload (UniformMatrix4fv _ _ _) = True"
| "is_uniform_upload _ = False"

fun is_clear :: "js_call \<Rightarrow> bool" where
  "is_clear (Clear _) = True"
| "is_clear _ = False"

fun is_draw :: "js_call \<Rightarrow> bool" where
  "is_draw (DrawArrays _ _ _) = True"
| "is_draw _ = False"

section \<open>The renderer: \<^verbatim>\<open>wasm/main.go\<close>\<close>

text \<open>A raw string literal of shader source: its lines, each after so many tabs.\<close>

definition glsl :: "(nat \<times> string) list \<Rightarrow> string" where
  "glsl ls = CHR 0x0A # concat (map (\<lambda>(n, t). replicate n (CHR 0x09) @ t @ [CHR 0x0A]) ls)
     @ [CHR 0x09]"

definition vertexShaderSource :: string where
  "vertexShaderSource = glsl
     [(2, ''attribute vec3 position;''),
      (2, ''uniform mat4 modelViewProjection;''),
      (2, ''void main() {''),
      (3, ''gl_Position = modelViewProjection * vec4(position, 1.0);''),
      (3, ''gl_PointSize = 5.0;''),
      (2, ''}'')]"

definition fragmentShaderSource :: string where
  "fragmentShaderSource = glsl
     [(2, ''precision mediump float;''),
      (2, ''void main() {''),
      (3, ''gl_FragColor = vec4(1.0, 1.0, 1.0, 1.0); // White points''),
      (2, ''}'')]"

text \<open>
  The variables of \<^verbatim>\<open>main\<close> that are alive while it waits on its channel; the render
  callback closes over them.
\<close>

record renderer =
  canvas :: jsval
  gl :: jsval
  points :: "float32 list"
  buffer :: jsval
  vertexShader :: jsval
  fragmentShader :: jsval
  program :: jsval
  positionLoc :: jsval
  mvpLoc :: jsval
  angle :: float32

text \<open>
  The loop \<^verbatim>\<open>for i := 0; i < 300; i++ { points[i] = rand.Float32()*2 - 1 }\<close>.
  \<^verbatim>\<open>rand.Float32\<close> draws from the generator's state \<open>g\<close> and advances it.
\<close>

function fill_points ::
  "('g \<Rightarrow> float32 \<times> 'g) \<Rightarrow> nat \<Rightarrow> float32 list \<Rightarrow> 'g \<Rightarrow> float32 list \<times> 'g" where
  "fill_points rnd i pts g =
     (if i < 300 then
        (let (v, g') = rnd g
         in fill_points rnd (i + 1) (pts[i := fsub (fmul v (Fin 2)) (Fin 1)]) g')
      else (pts, g))"
  by pat_completeness auto
termination
  by (relation "measure (\<lambda>(rnd, i, pts, g). 300 - i)") auto

datatype outcome = Panicked | Returned | Running renderer

text \<open>
  \<^verbatim>\<open>main\<close>, up to the point where it blocks on its channel. It returns the calls made, the
  generator's state and how it ended: by a panic, by returning, or waiting for frames.
\<close>

definition wasm_main ::
  "browser \<Rightarrow> ('g \<Rightarrow> float32 \<times> 'g) \<Rightarrow> 'g \<Rightarrow> js_call list \<times> 'g \<times> outcome" where
  "wasm_main b rnd g =
    (let cv = getElementById b ''canvas'' in
     if \<not> is_object cv then ([GetElementById ''canvas''], g, Panicked)
     else
       let ctx = getContext b ''webgl'' in
       if ctx = JNull then
         ([GetElementById ''canvas'', GetContext ''webgl'', Alert ''WebGL not supported''],
          g, Returned)
       else if \<not> is_object ctx then
         ([GetElementById ''canvas'', GetContext ''webgl''], g, Panicked)
       else
         let (pts, g') = fill_points rnd 0 (replicate 300 (Fin 0)) g;
             buf = createBuffer b;
             vs = createShader b (gl_get b ''VERTEX_SHADER'');
             fs = createShader b (gl_get b ''FRAGMENT_SHADER'');
             prog = createProgram b;
             ploc = getAttribLocation b prog ''position'';
             mloc = getUniformLocation b prog ''modelViewProjection''
         in ([GetElementById ''canvas'', GetContext ''webgl'',
              ClearColor 0 0 0 1,
              Clear (gl_get b ''COLOR_BUFFER_BIT''),
              CreateBuffer,
              BindBuffer (gl_get b ''ARRAY_BUFFER'') buf,
              BufferData (gl_get b ''ARRAY_BUFFER'') pts (gl_get b ''STATIC_DRAW''),
              CreateShader (gl_get b ''VERTEX_SHADER''),
              ShaderSource vs vertexShaderSource,
              CompileShader vs,
              CreateShader (gl_get b ''FRAGMENT_SHADER''),
              ShaderSource fs fragmentShaderSource,
              CompileShader fs,
              CreateProgram,
              AttachShader prog vs,
              AttachShader prog fs,
              LinkProgram prog,
              UseProgram prog,
              GetAttribLocation prog ''position'',
              EnableVertexAttribArray ploc,
              VertexAttribPointer ploc 3 (gl_get b ''FLOAT'') False 0 0,
              GetUniformLocation prog ''modelViewProjection'',
              RequestAnimationFrame ''render''],
             g',
             Running \<lparr>canvas = cv, gl = ctx, points = pts, buffer = buf, vertexShader = vs,
                      fragmentShader = fs, program = prog, positionLoc = ploc, mvpLoc = mloc,
                      angle = Fin 0\<rparr>))"

text \<open>The matrix literal of the render callback, from the sine and cosine of the angle.\<close>

definition mvp :: "gomath \<Rightarrow> float32 \<Rightarrow> float32 list" where
  "mvp m a =
    (let s = sin32 m a; c = cos32 m a in
     [c, Fin 0, s, Fin 0,
      Fin 0, Fin 1, Fin 0, Fin 0,
      fneg s, Fin 0, c, Fin 0,
      Fin 0, Fin 0, Fin (- 2), Fin 1])"

text \<open>
  The render callback: one frame. It returns the variables as it leaves them and the calls
  it made.
\<close>

definition render :: "browser \<Rightarrow> gomath \<Rightarrow> renderer \<Rightarrow> renderer \<times> js_call list" where
  "render b m r =
    (let a = fadd (angle r) (const32 (1 / 100)) in
     (r\<lparr>angle := a\<rparr>,
      [UniformMatrix4fv (mvpLoc r) False (mvp m a),
       Clear (gl_get b ''COLOR_BUFFER_BIT''),
       DrawArrays (gl_get b ''POINTS'') 0 100,
       RequestAnimationFrame ''render'']))"

text \<open>The page calls back once per frame; \<open>frames b m n\<close> is \<open>n\<close> frames in a row.\<close>

fun frames :: "browser \<Rightarrow> gomath \<Rightarrow> nat \<Rightarrow> renderer \<Rightarrow> renderer \<times> js_call list" where
  "frames b m 0 r = (r, [])"
| "frames b m (Suc n) r =
     (let (r1, c1) = render b m r; (r2, c2) = frames b m n r1 in (r2, c1 @ c2))"

text \<open>
  What WebGL does with these calls. \<^verbatim>\<open>uniformMatrix4fv\<close> with \<^verbatim>\<open>transpose = false\<close> reads
  its 16 numbers column by column: \<open>entry M i j\<close> is row \<open>i\<close>, column \<open>j\<close> of the matrix.
  The shader multiplies the matrix with the column vector \<open>(x, y, z, 1)\<close>, so column 3 is
  the translation.
\<close>

definition entry :: "float32 list \<Rightarrow> nat \<Rightarrow> nat \<Rightarrow> float32" where
  "entry M i j = M ! (4 * j + i)"

fun uniform_uploads :: "js_call list \<Rightarrow> float32 list list" where
  "uniform_uploads [] = []"
| "uniform_uploads (UniformMatrix4fv loc tr M # cs) = M # uniform_uploads cs"
| "uniform_uploads (c # cs) = uniform_uploads cs"

fun buffer_uploads :: "js_call list \<Rightarrow> float32 list list" where
  "buffer_uploads [] = []"
| "buffer_uploads (BufferData target xs usage # cs) = xs # buffer_uploads cs"
| "buffer_uploads (c # cs) = buffer_uploads cs"

text \<open>The layout a \<^verbatim>\<open>vertexAttribPointer\<close> call declares: components, stride, offset.\<close>

fun attrib_pointers :: "js_call list \<Rightarrow> (int \<times> int \<times> int) list" where
  "attrib_pointers [] = []"
| "attrib_pointers (VertexAttribPointer loc n ty nrm stride off # cs) =
     (n, stride, off) # attrib_pointers cs"
| "attrib_pointers (c # cs) = attrib_pointers cs"

text \<open>The range a \<^verbatim>\<open>drawArrays\<close> call draws: first vertex, number of vertices.\<close>

fun draws :: "js_call list \<Rightarrow> (int \<times> int) list" where
  "draws [] = []"
| "draws (DrawArrays mode first count # cs) = (first, count) # draws cs"
| "draws (c # cs) = draws cs"

text \<open>
  The bytes of the bound buffer that vertex \<open>i\<close> reads for an attribute of \<open>n\<close>
  components of type \<^verbatim>\<open>FLOAT\<close> (4 bytes each): they start at
  \<open>offset + i * stride\<close>, where a stride of 0 stands for tightly packed attributes.
\<close>

definition attrib_bytes :: "int \<times> int \<times> int \<Rightarrow> int \<Rightarrow> int \<times> int" where
  "attrib_bytes p i =
    (case p of (n, stride, off) \<Rightarrow>
       let start = off + i * (if stride = 0 then n * 4 else stride)
       in (start, start + n * 4))"

definition fetch_in_bounds :: "float32 list \<Rightarrow> int \<times> int \<times> int \<Rightarrow> int \<times> int \<Rightarrow> bool" where
  "fetch_in_bounds xs p d =
    (case d of (first, count) \<Rightarrow>
       list_all (\<lambda>i. 0 \<le> fst (attrib_bytes p i) \<and> snd (attrib_bytes p i) \<le> 4 * int (length xs))
         [first .. first + count - 1])"

text \<open>A flat list of coordinates read as points, three coordinates to a point.\<close>

fun triples :: "'a list \<Rightarrow> ('a \<times> 'a \<times> 'a) list" where
  "triples (x # y # z # xs) = (x, y, z) # triples xs"
| "triples _ = []"

fun flatten :: "('a \<times> 'a \<times> 'a) list \<Rightarrow> 'a list" where
  "flatten [] = []"
| "flatten ((x, y, z) # ps) = x # y # z # flatten ps"

text \<open>Finite values in \<open>[0, 1)\<close> and in \<open>[-1, 1)\<close>.\<close>

fun in_unit :: "float32 \<Rightarrow> bool" where
  "in_unit (Fin a) = (0 \<le> a \<and> a < 1)"
| "in_unit _ = False"

fun in_range :: "float32 \<Rightarrow> bool" where
  "in_range (Fin a) = (- 1 \<le> a \<and> a < 1)"
| "in_range _ = False"

fun the_fin :: "float32 \<Rightarrow> rat" where
  "the_fin (Fin a) = a"
| "the_fin _ = 0"

fun is_fin :: "float32 \<Rightarrow> bool" where
  "is_fin (Fin a) = True"
| "is_fin _ = False"

section \<open>The asset server: \<^verbatim>\<open>main.go\<close>\<close>

datatype handler = FileServerOf string

datatype srv_call =
    FileServer string
  | Handle string handler
  | Println "string list"
  | ListenAndServe string "handler option"

text \<open>
  \<^verbatim>\<open>http.ListenAndServe\<close> serves for as long as the process lives, or returns an error
  value.
\<close>

datatype listen = Blocks | Returns "string option"

datatype srv_outcome = Serving | Exited

fun is_listen :: "srv_call \<Rightarrow> bool" where
  "is_listen (ListenAndServe _ _) = True"
| "is_listen _ = False"

definition server_main :: "listen \<Rightarrow> srv_call list \<times> srv_outcome" where
  "server_main l =
    (let fs = FileServerOf ''wasm'';
         started = [FileServer ''wasm'', Handle ''/'' fs,
                    Println [''Server running at http://localhost:8080''],
                    ListenAndServe '':8080'' None]
     in case l of
          Blocks \<Rightarrow> (started, Serving)
        | Returns None \<Rightarrow> (started, Exited)
        | Returns (Some err) \<Rightarrow> (started @ [Println [''Server error:'', err]], Exited))"

section \<open>Concrete inputs\<close>

text \<open>A page with a canvas whose context is an object; one without WebGL.\<close>

definition page :: browser where
  "page = \<lparr>getElementById = (\<lambda>i. if i = ''canvas'' then JObj 1 else JNull),
           getContext = (\<lambda>k. if k = ''webgl'' then JObj 2 else JNull),
           gl_get = (\<lambda>n. JStr n),
           createBuffer = JObj 3,
           createShader = (\<lambda>t. if t = JStr ''VERTEX_SHADER'' then JObj 4 else JObj 5),
           createProgram = JObj 6,
           getAttribLocation = (\<lambda>p n. JNum 0),
           getUniformLocation = (\<lambda>p n. JObj 7)\<rparr>"

definition page_without_webgl :: browser where
  "page_without_webgl = page\<lparr>getContext := (\<lambda>k. JNull)\<rparr>"

text \<open>A generator with four states, drawing 0, 1/4, 1/2 and 3/4 in turn.\<close>

definition quarters :: "nat \<Rightarrow> float32 \<times> nat" where
  "quarters g = (Fin (of_nat (g mod 4) / 4), Suc g mod 4)"

text \<open>Stand-ins for the sine and cosine: their first Taylor terms, rounded.\<close>

definition taylor :: gomath where
  "taylor = \<lparr>sin32 = (\<lambda>a. round32 (the_fin a)),
             cos32 = (\<lambda>a. round32 (1 - the_fin a * the_fin a / 2))\<rparr>"

section \<open>Claims\<close>

text \<open>
  C1. Every frame makes exactly one uniform matrix upload, exactly one clear and exactly
  one draw call, which draws 100 vertices from vertex 0 as points; the context receives
  the upload first, then the clear, then the draw, and nothing else.
\<close>

theorem render_calls_once_in_order:
  "filter is_gl_call (snd (render b m r)) =
     [UniformMatrix4fv (mvpLoc r) False (mvp m (angle (fst (render b m r)))),
      Clear (gl_get b ''COLOR_BUFFER_BIT''),
      DrawArrays (gl_get b ''POINTS'') 0 100]
   \<and> length (filter is_uniform_upload (snd (render b m r))) = 1
   \<and> length (filter is_clear (snd (render b m r))) = 1
   \<and> length (filter is_draw (snd (render b m r))) = 1"
  by (simp add: render_def Let_def)

end
